theory Spec2Isabelle
  imports Complex_Main
begin

section \<open>JavaScript values\<close>

text \<open>
  The runner works on JSON data (step configurations, event payloads, database rows)
  with JavaScript's coercions. Numbers are modelled exactly: a finite number is a
  rational, so the rounding of IEEE doubles is not part of the model, and the two zeros
  are one value. Strings are byte strings. Besides JSON data a value can be
  \<open>undefined\<close>, a built-in function inherited from a prototype (\<open>JNative\<close>),
  or one of the two prototype objects that a lookup of \<open>__proto__\<close> can reach.
\<close>

datatype jsnum = NaN | PInf | NInf | Fin rat

datatype jsval =
    JUndefined
  | JNull
  | JBool bool
  | JNum jsnum
  | JStr string
  | JArr "jsval list"
  | JObj "(string \<times> jsval) list"
  | JNative string
  | JObjectProto
  | JArrayProto

text \<open>A thrown exception is its message; \<open>Inl\<close> is a throw.\<close>

type_synonym 'a thrown = "string + 'a"

text \<open>Sequencing: a throw of the first computation skips the second.\<close>

definition and_then :: "'a thrown \<Rightarrow> ('a \<Rightarrow> 'b thrown) \<Rightarrow> 'b thrown" where
  "and_then m f = (case m of Inl e \<Rightarrow> Inl e | Inr x \<Rightarrow> f x)"

subsection \<open>Arithmetic and comparison of numbers\<close>

fun num_mul :: "jsnum \<Rightarrow> jsnum \<Rightarrow> jsnum" where
  "num_mul NaN _ = NaN"
| "num_mul _ NaN = NaN"
| "num_mul (Fin a) (Fin b) = Fin (a * b)"
| "num_mul (Fin a) PInf = (if a = 0 then NaN else if 0 < a then PInf else NInf)"
| "num_mul (Fin a) NInf = (if a = 0 then NaN else if 0 < a then NInf else PInf)"
| "num_mul PInf (Fin b) = (if b = 0 then NaN else if 0 < b then PInf else NInf)"
| "num_mul NInf (Fin b) = (if b = 0 then NaN else if 0 < b then NInf else PInf)"
| "num_mul PInf PInf = PInf"
| "num_mul NInf NInf = PInf"
| "num_mul PInf NInf = NInf"
| "num_mul NInf PInf = NInf"

fun num_add :: "jsnum \<Rightarrow> jsnum \<Rightarrow> jsnum" where
  "num_add NaN _ = NaN"
| "num_add _ NaN = NaN"
| "num_add (Fin a) (Fin b) = Fin (a + b)"
| "num_add PInf NInf = NaN"
| "num_add NInf PInf = NaN"
| "num_add PInf _ = PInf"
| "num_add _ PInf = PInf"
| "num_add NInf _ = NInf"
| "num_add _ NInf = NInf"

text \<open>\<open>a < b\<close> on numbers: false as soon as one side is NaN.\<close>

fun num_less :: "jsnum \<Rightarrow> jsnum \<Rightarrow> bool" where
  "num_less NaN _ = False"
| "num_less _ NaN = False"
| "num_less (Fin a) (Fin b) = (a < b)"
| "num_less NInf NInf = False"
| "num_less NInf _ = True"
| "num_less _ NInf = False"
| "num_less PInf _ = False"
| "num_less _ PInf = True"

subsection \<open>Truthiness\<close>

fun truthy :: "jsval \<Rightarrow> bool" where
  "truthy JUndefined = False"
| "truthy JNull = False"
| "truthy (JBool b) = b"
| "truthy (JNum n) = (n \<noteq> NaN \<and> n \<noteq> Fin 0)"
| "truthy (JStr s) = (s \<noteq> [])"
| "truthy _ = True"

text \<open>\<open>a || b\<close>\<close>

definition js_or :: "jsval \<Rightarrow> jsval \<Rightarrow> jsval" where
  "js_or a b = (if truthy a then a else b)"

subsection \<open>Number to string\<close>

definition digit_char :: "nat \<Rightarrow> char" where
  "digit_char d = ''0123456789'' ! (d mod 10)"

fun show_nat :: "nat \<Rightarrow> string" where
  "show_nat n = (if n < 10 then [digit_char n] else show_nat (n div 10) @ [digit_char n])"

text \<open>
  The least \<open>t\<close> with \<open>q * 10^t\<close> an integer, searched from \<open>t\<close> upwards with a bound.
  The bound is reached only by a rational with no finite decimal expansion, which is not
  the value of any number literal nor of a sum or product of such values.
\<close>

fun dec_scale :: "rat \<Rightarrow> nat \<Rightarrow> nat \<Rightarrow> nat" where
  "dec_scale q t fuel =
     (if fuel = 0 \<or> q * 10 ^ t = of_int \<lfloor>q * 10 ^ t\<rfloor> then t
      else dec_scale q (t + 1) (fuel - 1))"

text \<open>Trailing zeros of a decimal numeral are counted, not written.\<close>

fun strip_zeros :: "nat \<Rightarrow> nat \<Rightarrow> nat \<times> nat" where
  "strip_zeros m z =
     (if m \<noteq> 0 \<and> m mod 10 = 0 then strip_zeros (m div 10) (z + 1) else (m, z))"

text \<open>
  Number::toString for a positive finite number: with digits \<open>ds\<close> (\<open>k\<close> of them)
  and decimal exponent \<open>n\<close>, the value is \<open>0.ds * 10^n\<close>.
\<close>

definition show_pos :: "rat \<Rightarrow> string" where
  "show_pos q =
     (let t = dec_scale q 0 (nat (snd (quotient_of q)));
          (s, z) = strip_zeros (nat \<lfloor>q * 10 ^ t\<rfloor>) 0;
          ds = show_nat s;
          k = int (length ds);
          n = k + int z - int t
      in if k \<le> n \<and> n \<le> 21 then ds @ replicate (nat (n - k)) (CHR ''0'')
         else if 0 < n \<and> n \<le> 21 then take (nat n) ds @ ''.'' @ drop (nat n) ds
         else if - 6 < n \<and> n \<le> 0 then ''0.'' @ replicate (nat (- n)) (CHR ''0'') @ ds
         else (if k = 1 then ds else take 1 ds @ ''.'' @ drop 1 ds)
              @ ''e'' @ (if 0 \<le> n - 1 then ''+'' else ''-'') @ show_nat (nat \<bar>n - 1\<bar>))"

fun num_to_string :: "jsnum \<Rightarrow> string" where
  "num_to_string NaN = ''NaN''"
| "num_to_string PInf = ''Infinity''"
| "num_to_string NInf = ''-Infinity''"
| "num_to_string (Fin q) =
     (if q = 0 then ''0'' else if q < 0 then ''-'' @ show_pos (- q) else show_pos q)"

subsection \<open>String to number\<close>

definition is_ws :: "char \<Rightarrow> bool" where
  "is_ws c = (c \<in> set [CHR 0x09, CHR 0x0A, CHR 0x0B, CHR 0x0C, CHR 0x0D, CHR 0x20])"

definition trim :: "string \<Rightarrow> string" where
  "trim s = rev (dropWhile is_ws (rev (dropWhile is_ws s)))"

definition digit_of :: "char \<Rightarrow> nat option" where
  "digit_of c = map_of (zip ''0123456789abcdef'' [0 ..< 16]) c"

definition hex_digit_of :: "char \<Rightarrow> nat option" where
  "hex_digit_of c =
     (case digit_of c of Some d \<Rightarrow> Some d
      | None \<Rightarrow> map_of (zip ''ABCDEF'' [10 ..< 16]) c)"

text \<open>A non-empty digit string in a base, as a number.\<close>

fun digits_val :: "nat \<Rightarrow> nat \<Rightarrow> string \<Rightarrow> nat option" where
  "digits_val base acc [] = Some acc"
| "digits_val base acc (c # cs) =
     (case hex_digit_of c of
        None \<Rightarrow> None
      | Some d \<Rightarrow> if d < base then digits_val base (acc * base + d) cs else None)"

definition parse_digits :: "nat \<Rightarrow> string \<Rightarrow> nat option" where
  "parse_digits base s = (if s = [] then None else digits_val base 0 s)"

definition is_digit :: "char \<Rightarrow> bool" where
  "is_digit c = (c \<in> set ''0123456789'')"

text \<open>The exponent part after \<open>e\<close> or \<open>E\<close>: an optional sign and digits.\<close>

definition parse_exponent :: "string \<Rightarrow> int option" where
  "parse_exponent s =
     (case s of
        [] \<Rightarrow> None
      | c # cs \<Rightarrow>
          if c = CHR ''-'' then map_option (\<lambda>n. - int n) (parse_digits 10 cs)
          else if c = CHR ''+'' then map_option int (parse_digits 10 cs)
          else map_option int (parse_digits 10 s))"

definition pow10 :: "int \<Rightarrow> rat" where
  "pow10 e = (if 0 \<le> e then 10 ^ nat e else 1 / 10 ^ nat (- e))"

text \<open>
  An unsigned decimal literal: digits, an optional fraction (one of the two sides of the
  point may be empty, not both) and an optional exponent.
\<close>

definition parse_unsigned_decimal :: "string \<Rightarrow> rat option" where
  "parse_unsigned_decimal s =
     (let ip = takeWhile is_digit s;
          r1 = dropWhile is_digit s;
          has_point = (r1 \<noteq> [] \<and> hd r1 = CHR ''.'');
          r2 = (if has_point then tl r1 else r1);
          fp = takeWhile is_digit r2;
          r3 = dropWhile is_digit r2;
          iv = (if ip = [] then Some 0 else parse_digits 10 ip);
          fv = (if fp = [] then Some 0 else parse_digits 10 fp)
      in if ip = [] \<and> fp = [] then None
         else if fp \<noteq> [] \<and> \<not> has_point then None
         else
           (case (iv, fv) of
              (Some i, Some f) \<Rightarrow>
                (let m = of_nat i + of_nat f / 10 ^ length fp
                 in if r3 = [] then Some m
                    else if hd r3 = CHR ''e'' \<or> hd r3 = CHR ''E''
                    then map_option (\<lambda>e. m * pow10 e) (parse_exponent (tl r3))
                    else None)
            | _ \<Rightarrow> None))"

definition parse_signed_decimal :: "string \<Rightarrow> jsnum" where
  "parse_signed_decimal s =
     (let neg = (s \<noteq> [] \<and> hd s = CHR ''-'');
          u = (if s \<noteq> [] \<and> (hd s = CHR ''-'' \<or> hd s = CHR ''+'') then tl s else s)
      in if u = ''Infinity'' then (if neg then NInf else PInf)
         else (case parse_unsigned_decimal u of
                 None \<Rightarrow> NaN
               | Some q \<Rightarrow> Fin (if neg then - q else q)))"

text \<open>StringToNumber: white space is trimmed, the empty string is 0.\<close>

definition string_to_num :: "string \<Rightarrow> jsnum" where
  "string_to_num s =
     (let t = trim s;
          p = take 2 t
      in if t = [] then Fin 0
         else if p = ''0x'' \<or> p = ''0X''
         then (case parse_digits 16 (drop 2 t) of None \<Rightarrow> NaN | Some n \<Rightarrow> Fin (of_nat n))
         else if p = ''0o'' \<or> p = ''0O''
         then (case parse_digits 8 (drop 2 t) of None \<Rightarrow> NaN | Some n \<Rightarrow> Fin (of_nat n))
         else if p = ''0b'' \<or> p = ''0B''
         then (case parse_digits 2 (drop 2 t) of None \<Rightarrow> NaN | Some n \<Rightarrow> Fin (of_nat n))
         else parse_signed_decimal t)"

subsection \<open>String() and Number()\<close>

definition type_error :: string where
  "type_error = ''Cannot convert object to primitive value''"

fun join_with :: "string \<Rightarrow> string list \<Rightarrow> string" where
  "join_with sep [] = []"
| "join_with sep [x] = x"
| "join_with sep (x # y # ys) = x @ sep @ join_with sep (y # ys)"

text \<open>All results, or the first throw.\<close>

fun sequence :: "'a thrown list \<Rightarrow> 'a list thrown" where
  "sequence [] = Inr []"
| "sequence (r # rs) =
     (case r of
        Inl e \<Rightarrow> Inl e
      | Inr x \<Rightarrow> (case sequence rs of Inl e \<Rightarrow> Inl e | Inr xs \<Rightarrow> Inr (x # xs)))"

text \<open>
  \<open>String(v)\<close>. An object is converted by its \<open>toString\<close> method, which a plain
  object inherits; an own property of that name (JSON data is never callable) hides it,
  \<open>valueOf\<close> returns the object itself, and the conversion throws a TypeError.
  An array is converted by \<open>join\<close>, which converts each element and writes
  \<open>null\<close> and \<open>undefined\<close> as the empty string.
\<close>

fun to_string :: "jsval \<Rightarrow> string thrown" where
  "to_string JUndefined = Inr ''undefined''"
| "to_string JNull = Inr ''null''"
| "to_string (JBool b) = Inr (if b then ''true'' else ''false'')"
| "to_string (JNum n) = Inr (num_to_string n)"
| "to_string (JStr s) = Inr s"
| "to_string (JArr xs) =
     (case sequence (map (\<lambda>x. if x = JUndefined \<or> x = JNull then Inr [] else to_string x) xs) of
        Inl e \<Rightarrow> Inl e
      | Inr ss \<Rightarrow> Inr (join_with '','' ss))"
| "to_string (JObj kvs) =
     (if map_of kvs ''toString'' \<noteq> None then Inl type_error else Inr ''[object Object]'')"
| "to_string (JNative f) = Inr (''function '' @ f @ ''() { [native code] }'')"
| "to_string JObjectProto = Inr ''[object Object]''"
| "to_string JArrayProto = Inr []"

text \<open>\<open>Number(v)\<close>: an object or array is converted to its string first.\<close>

fun to_number :: "jsval \<Rightarrow> jsnum thrown" where
  "to_number JUndefined = Inr NaN"
| "to_number JNull = Inr (Fin 0)"
| "to_number (JBool b) = Inr (Fin (if b then 1 else 0))"
| "to_number (JNum n) = Inr n"
| "to_number (JStr s) = Inr (string_to_num s)"
| "to_number v = (case to_string v of Inl e \<Rightarrow> Inl e | Inr s \<Rightarrow> Inr (string_to_num s))"

subsection \<open>Property lookup\<close>

definition typeof :: "jsval \<Rightarrow> string" where
  "typeof v =
     (case v of
        JUndefined \<Rightarrow> ''undefined''
      | JBool _ \<Rightarrow> ''boolean''
      | JNum _ \<Rightarrow> ''number''
      | JStr _ \<Rightarrow> ''string''
      | JNative _ \<Rightarrow> ''function''
      | _ \<Rightarrow> ''object'')"

text \<open>
  The methods a plain object inherits from \<open>Object.prototype\<close> and an array from
  \<open>Array.prototype\<close> (ECMAScript 2023); \<open>constructor\<close> and \<open>__proto__\<close> are
  treated apart.
\<close>

definition object_proto_methods :: "string list" where
  "object_proto_methods =
     [''__defineGetter__'', ''__defineSetter__'', ''hasOwnProperty'', ''__lookupGetter__'',
      ''__lookupSetter__'', ''isPrototypeOf'', ''propertyIsEnumerable'', ''toString'',
      ''valueOf'', ''toLocaleString'']"

definition array_proto_methods :: "string list" where
  "array_proto_methods =
     [''at'', ''concat'', ''copyWithin'', ''fill'', ''find'', ''findIndex'', ''findLast'',
      ''findLastIndex'', ''lastIndexOf'', ''pop'', ''push'', ''reverse'', ''shift'',
      ''unshift'', ''slice'', ''sort'', ''splice'', ''includes'', ''indexOf'', ''join'',
      ''keys'', ''entries'', ''values'', ''forEach'', ''filter'', ''flat'', ''flatMap'',
      ''map'', ''every'', ''some'', ''reduce'', ''reduceRight'', ''toLocaleString'',
      ''toString'', ''toReversed'', ''toSorted'', ''toSpliced'', ''with'']"

text \<open>An array index is the canonical decimal numeral of a number.\<close>

definition array_index :: "string \<Rightarrow> nat option" where
  "array_index k =
     (case parse_digits 10 k of
        None \<Rightarrow> None
      | Some n \<Rightarrow> if show_nat n = k then Some n else None)"

fun own_property :: "jsval \<Rightarrow> string \<Rightarrow> jsval option" where
  "own_property (JObj kvs) k = map_of kvs k"
| "own_property (JArr xs) k =
     (if k = ''length'' then Some (JNum (Fin (of_nat (length xs))))
      else (case array_index k of
              None \<Rightarrow> None
            | Some i \<Rightarrow> if i < length xs then Some (xs ! i) else None))"
| "own_property JArrayProto k =
     (if k = ''length'' then Some (JNum (Fin 0))
      else if k = ''constructor'' then Some (JNative ''Array'')
      else if k \<in> set array_proto_methods then Some (JNative k)
      else None)"
| "own_property JObjectProto k =
     (if k = ''constructor'' then Some (JNative ''Object'')
      else if k \<in> set object_proto_methods then Some (JNative k)
      else None)"
| "own_property _ k = None"

fun prototype_chain :: "jsval \<Rightarrow> jsval list" where
  "prototype_chain (JObj kvs) = [JObj kvs, JObjectProto]"
| "prototype_chain (JArr xs) = [JArr xs, JArrayProto, JObjectProto]"
| "prototype_chain JArrayProto = [JArrayProto, JObjectProto]"
| "prototype_chain JObjectProto = [JObjectProto]"
| "prototype_chain _ = []"

fun prototype_of :: "jsval \<Rightarrow> jsval" where
  "prototype_of (JObj kvs) = JObjectProto"
| "prototype_of (JArr xs) = JArrayProto"
| "prototype_of JArrayProto = JObjectProto"
| "prototype_of _ = JNull"

text \<open>
  \<open>k in v\<close> holds when the result is not \<open>None\<close>, and then \<open>v[k]\<close> is the value:
  the first own property along the prototype chain; \<open>__proto__\<close> is an accessor of
  \<open>Object.prototype\<close> that returns the prototype of the receiver.
\<close>

definition get_property :: "jsval \<Rightarrow> string \<Rightarrow> jsval option" where
  "get_property v k =
     (case filter (\<lambda>ob. own_property ob k \<noteq> None) (prototype_chain v) of
        ob # _ \<Rightarrow> own_property ob k
      | [] \<Rightarrow> if k = ''__proto__'' \<and> prototype_chain v \<noteq> [] then Some (prototype_of v)
              else None)"

text \<open>
  \<open>v.k\<close>, for a \<open>v\<close> that is neither \<open>null\<close> nor \<open>undefined\<close>. On a string,
  number or boolean the result is \<open>undefined\<close>: the runner reads from a configuration
  or a row only names that no prototype defines.
\<close>

definition js_get :: "jsval \<Rightarrow> string \<Rightarrow> jsval" where
  "js_get v k = (case get_property v k of None \<Rightarrow> JUndefined | Some x \<Rightarrow> x)"

subsection \<open>Strings\<close>

text \<open>\<open>s.split(".")\<close>\<close>

fun split_dot :: "string \<Rightarrow> string list" where
  "split_dot [] = [[]]"
| "split_dot (c # cs) =
     (if c = CHR ''.'' then [] # split_dot cs
      else (case split_dot cs of [] \<Rightarrow> [[c]] | w # ws \<Rightarrow> (c # w) # ws))"

text \<open>\<open>a.includes(b)\<close>\<close>

fun includes_str :: "string \<Rightarrow> string \<Rightarrow> bool" where
  "includes_str [] b = (b = [])"
| "includes_str (c # cs) b = (take (length b) (c # cs) = b \<or> includes_str cs b)"

section \<open>Dotted-path lookup and the condition evaluator\<close>

definition getNestedValue :: "jsval \<Rightarrow> string \<Rightarrow> jsval" where
  "getNestedValue obj path =
     foldl (\<lambda>acc key.
              if truthy acc \<and> typeof acc = ''object'' \<and> get_property acc key \<noteq> None
              then js_get acc key
              else JUndefined)
       obj (split_dot path)"

text \<open>
  The logger calls of the source are diagnostics and are left out of the model
  throughout.
\<close>

definition evaluateCondition :: "jsval \<Rightarrow> jsval \<Rightarrow> bool thrown" where
  "evaluateCondition config ctx =
     and_then (to_string (js_or (js_get config ''field'') (JStr []))) (\<lambda>field.
     and_then (to_string (js_or (js_get config ''operator'') (JStr ''equals''))) (\<lambda>operator.
       let v = js_get config ''value'';
           actual = getNestedValue ctx field
       in if operator = ''equals''
          then and_then (to_string actual) (\<lambda>a. and_then (to_string v) (\<lambda>b. Inr (a = b)))
          else if operator = ''not_equals''
          then and_then (to_string actual) (\<lambda>a. and_then (to_string v) (\<lambda>b. Inr (a \<noteq> b)))
          else if operator = ''contains''
          then and_then (to_string actual) (\<lambda>a.
               and_then (to_string v) (\<lambda>b. Inr (includes_str a b)))
          else if operator = ''not_contains''
          then and_then (to_string actual) (\<lambda>a.
               and_then (to_string v) (\<lambda>b. Inr (\<not> includes_str a b)))
          else if operator = ''greater_than''
          then and_then (to_number actual) (\<lambda>a.
               and_then (to_number v) (\<lambda>b. Inr (num_less b a)))
          else if operator = ''less_than''
          then and_then (to_number actual) (\<lambda>a.
               and_then (to_number v) (\<lambda>b. Inr (num_less a b)))
          else if operator = ''is_empty''
          then Inr (\<not> truthy actual \<or> actual = JStr [] \<or> actual = JNull
                    \<or> actual = JUndefined)
          else if operator = ''is_not_empty''
          then Inr (truthy actual \<and> actual \<noteq> JStr [] \<and> actual \<noteq> JNull
                    \<and> actual \<noteq> JUndefined)
          else Inr False))"

section \<open>Template interpolation\<close>

text \<open>\<open>\w\<close> of a regular expression without the unicode flag.\<close>

definition is_word :: "char \<Rightarrow> bool" where
  "is_word c =
     (c \<in> set ''abcdefghijklmnopqrstuvwxyzABCDEFGHIJKLMNOPQRSTUVWXYZ0123456789_'')"

text \<open>
  The regular expression \<open>\{\{(\w+(?:\.\w+)*)\}\}\<close> anchored after its two opening
  braces. \<open>need\<close> is true where a word character must come (at the start and after a
  dot). A word is followed by a dot or by the closing braces and neither is a word
  character, so the greedy match never gains by backtracking. The result is the captured
  path and the text after the match.
\<close>

fun match_path :: "bool \<Rightarrow> string \<Rightarrow> string \<Rightarrow> (string \<times> string) option" where
  "match_path need acc [] = None"
| "match_path need acc (c # cs) =
     (if is_word c then match_path False (acc @ [c]) cs
      else if need then None
      else if c = CHR ''.'' then match_path True (acc @ [c]) cs
      else if c = CHR ''}'' \<and> cs \<noteq> [] \<and> hd cs = CHR ''}'' then Some (acc, tl cs)
      else None)"

text \<open>The match of the whole expression at the start of a string.\<close>

definition match_placeholder :: "string \<Rightarrow> (string \<times> string) option" where
  "match_placeholder s =
     (if take 2 s = ''{{'' then match_path True [] (drop 2 s) else None)"

text \<open>The replacement callback of \<open>interpolate\<close>.\<close>

definition replacement :: "jsval \<Rightarrow> string \<Rightarrow> string thrown" where
  "replacement ctx path =
     (let val = getNestedValue ctx path
      in if val \<noteq> JUndefined \<and> val \<noteq> JNull then to_string val else Inr [])"

lemma match_path_shorter:
  "match_path need acc s = Some (p, r) \<Longrightarrow> length r < length s"
  by (induction need acc s rule: match_path.induct) (auto split: if_splits)

lemma match_placeholder_shorter:
  "match_placeholder s = Some (p, r) \<Longrightarrow> length r < length s"
  by (auto simp: match_placeholder_def split: if_splits dest!: match_path_shorter)

text \<open>
  \<open>template.replace(regex, callback)\<close> with the global flag: the matches are found from
  left to right, each search starting where the last match ended, and the text the
  callback returns is not searched.
\<close>

function interpolate :: "string \<Rightarrow> jsval \<Rightarrow> string thrown" where
  "interpolate [] ctx = Inr []"
| "interpolate (c # cs) ctx =
     (case match_placeholder (c # cs) of
        Some (path, rest) \<Rightarrow>
          and_then (replacement ctx path) (\<lambda>r.
          and_then (interpolate rest ctx) (\<lambda>t. Inr (r @ t)))
      | None \<Rightarrow> and_then (interpolate cs ctx) (\<lambda>t. Inr (c # t)))"
  by pat_completeness auto
termination
  by (relation "measure (\<lambda>(s, ctx). length s)")
     (auto dest: match_placeholder_shorter)

section \<open>The outside world\<close>

text \<open>
  The runner talks to a store (Supabase), to HTTP endpoints, to the durable scheduler and
  to the task runtime. Every request it issues is appended to a journal, in order. A
  store request carries the name of the function of the source that issued it, so the
  bookkeeping writes of the runner are told apart from the writes an action makes.
\<close>

text \<open>
  A query: the table, then for \<open>Select\<close> the equality filters and the ordering column,
  for \<open>Insert\<close> the row and whether the new id is read back
  (\<open>.select("id").single()\<close>), for \<open>Update\<close> the new column values and the
  equality filters. The client writes a filter value into the request as text.
\<close>

datatype query =
    Select string "(string \<times> string) list" "string option"
  | Insert string jsval bool
  | Update string "(string \<times> jsval) list" "(string \<times> string) list"

datatype effect =
    Store string query
  | Fetch string jsval
  | WaitFor jsnum
  | TriggerAndWait jsval

record http_response =
  ok :: bool
  status :: jsval
  text_body :: string
  json_body :: "jsval thrown"

text \<open>
  What the outside world answers. The \<open>n\<close>-th request of a run (counted by the length
  of the journal) can be refused with a message (\<open>fault\<close>); an insert is given the id
  \<open>new_id n\<close>; the \<open>k\<close>-th reading of the clock gives \<open>now k\<close>. \<open>add_days\<close>
  is the date arithmetic of \<open>create_task\<close> (it throws a RangeError on an invalid date),
  \<open>stringify\<close> is \<open>JSON.stringify\<close>, and \<open>awaited\<close> is what
  \<open>triggerAndWait\<close> hands to the parent for the outcome of the child run.
\<close>

record env =
  getenv :: "string \<Rightarrow> string option"
  fault :: "nat \<Rightarrow> effect \<Rightarrow> string option"
  new_id :: "nat \<Rightarrow> jsnum"
  now :: "nat \<Rightarrow> string"
  respond :: "nat \<Rightarrow> effect \<Rightarrow> http_response thrown"
  add_days :: "string \<Rightarrow> jsnum \<Rightarrow> string thrown"
  stringify :: "jsval \<Rightarrow> string"
  awaited :: "jsval thrown \<Rightarrow> jsval thrown"

record world =
  tables :: "(string \<times> jsval list) list"
  journal :: "effect list"
  clock_reads :: nat

definition table_rows :: "world \<Rightarrow> string \<Rightarrow> jsval list" where
  "table_rows w t = (case map_of (tables w) t of None \<Rightarrow> [] | Some rows \<Rightarrow> rows)"

definition put_table :: "string \<Rightarrow> jsval list \<Rightarrow> world \<Rightarrow> world" where
  "put_table t rows w = w\<lparr>tables := (t, rows) # filter (\<lambda>(k, _). k \<noteq> t) (tables w)\<rparr>"

text \<open>\<open>new Date().toISOString()\<close>\<close>

definition read_clock :: "env \<Rightarrow> world \<Rightarrow> string \<times> world" where
  "read_clock env w = (now env (clock_reads w), w\<lparr>clock_reads := clock_reads w + 1\<rparr>)"

text \<open>\<open>process.env.NAME || dflt\<close>\<close>

definition env_or :: "env \<Rightarrow> string \<Rightarrow> string \<Rightarrow> string" where
  "env_or env name dflt =
     (case getenv env name of None \<Rightarrow> dflt | Some v \<Rightarrow> if v = [] then dflt else v)"

subsection \<open>The store\<close>

text \<open>
  \<open>{...target, ...src}\<close> on the fields of two objects: a key of \<open>src\<close> replaces the
  value of the same key of \<open>target\<close>, the other keys of \<open>src\<close> are added.
\<close>

definition obj_assign ::
  "(string \<times> jsval) list \<Rightarrow> (string \<times> jsval) list \<Rightarrow> (string \<times> jsval) list" where
  "obj_assign target src =
     map (\<lambda>(k, v). (k, case map_of src k of None \<Rightarrow> v | Some v' \<Rightarrow> v')) target
     @ filter (\<lambda>(k, v). map_of target k = None) src"

definition fields_of :: "jsval \<Rightarrow> (string \<times> jsval) list" where
  "fields_of v = (case v of JObj kvs \<Rightarrow> kvs | _ \<Rightarrow> [])"

text \<open>
  The store compares a column with a filter value as text; a column that is null or
  missing equals nothing.
\<close>

definition column_text :: "jsval \<Rightarrow> string option" where
  "column_text v =
     (if v = JNull \<or> v = JUndefined then None
      else (case to_string v of Inl _ \<Rightarrow> None | Inr t \<Rightarrow> Some t))"

definition matches :: "(string \<times> string) list \<Rightarrow> jsval \<Rightarrow> bool" where
  "matches fs row = list_all (\<lambda>(col, t). column_text (js_get row col) = Some t) fs"

text \<open>Ascending order on a column, stable, rows without a number in the column last.\<close>

definition order_key :: "string \<Rightarrow> jsval \<Rightarrow> rat option" where
  "order_key col row = (case js_get row col of JNum (Fin q) \<Rightarrow> Some q | _ \<Rightarrow> None)"

definition key_le :: "rat option \<Rightarrow> rat option \<Rightarrow> bool" where
  "key_le a b =
     (case (a, b) of
        (Some x, Some y) \<Rightarrow> x \<le> y
      | (None, Some y) \<Rightarrow> False
      | _ \<Rightarrow> True)"

fun insert_ordered :: "string \<Rightarrow> jsval \<Rightarrow> jsval list \<Rightarrow> jsval list" where
  "insert_ordered col r [] = [r]"
| "insert_ordered col r (x # xs) =
     (if key_le (order_key col r) (order_key col x) then r # x # xs
      else x # insert_ordered col r xs)"

definition ordered :: "string option \<Rightarrow> jsval list \<Rightarrow> jsval list" where
  "ordered ord rows =
     (case ord of None \<Rightarrow> rows | Some col \<Rightarrow> foldr (insert_ordered col) rows [])"

text \<open>
  One request to the store: it is journalled, then either refused with the message of
  the error, or carried out. The result is the \<open>error\<close> (\<open>Inl\<close>) or the \<open>data\<close>
  of the client's answer.
\<close>

definition store_request :: "env \<Rightarrow> string \<Rightarrow> query \<Rightarrow> world \<Rightarrow> jsval thrown \<times> world" where
  "store_request env caller q w =
     (let e = Store caller q;
          n = length (journal w);
          w1 = w\<lparr>journal := journal w @ [e]\<rparr>
      in case fault env n e of
           Some m \<Rightarrow> (Inl m, w1)
         | None \<Rightarrow>
             (case q of
                Select t fs ord \<Rightarrow>
                  (Inr (JArr (ordered ord (filter (matches fs) (table_rows w t)))), w1)
              | Insert t row ret \<Rightarrow>
                  (let r = obj_assign [(''id'', JNum (new_id env n))] (fields_of row)
                   in (Inr (if ret then JObj [(''id'', js_get (JObj r) ''id'')] else JNull),
                       put_table t (table_rows w t @ [JObj r]) w1))
              | Update t vals fs \<Rightarrow>
                  (Inr JNull,
                   put_table t
                     (map (\<lambda>r. if matches fs r then JObj (obj_assign (fields_of r) vals) else r)
                        (table_rows w t))
                     w1)))"

subsection \<open>Computations on the world\<close>

text \<open>
  An asynchronous function of the source is a function from the world to its outcome (a
  throw or a result) and the world it leaves.
\<close>

type_synonym 'a io = "world \<Rightarrow> 'a thrown \<times> world"

definition io_return :: "'a \<Rightarrow> 'a io" where
  "io_return x = (\<lambda>w. (Inr x, w))"

definition io_throw :: "string \<Rightarrow> 'a io" where
  "io_throw e = (\<lambda>w. (Inl e, w))"

text \<open>A computation without effect.\<close>

definition io_of :: "'a thrown \<Rightarrow> 'a io" where
  "io_of m = (\<lambda>w. (m, w))"

definition io_bind :: "'a io \<Rightarrow> ('a \<Rightarrow> 'b io) \<Rightarrow> 'b io" where
  "io_bind m f = (\<lambda>w. case m w of (Inl e, w') \<Rightarrow> (Inl e, w') | (Inr x, w') \<Rightarrow> f x w')"

text \<open>\<open>try { m } catch (err) { h (message of err) }\<close>\<close>

definition io_catch :: "'a io \<Rightarrow> (string \<Rightarrow> 'a io) \<Rightarrow> 'a io" where
  "io_catch m h = (\<lambda>w. case m w of (Inl e, w') \<Rightarrow> h e w' | (Inr x, w') \<Rightarrow> (Inr x, w'))"

text \<open>An awaited request whose answer the source does not look at.\<close>

definition ignoring :: "'a io \<Rightarrow> unit io" where
  "ignoring m = (\<lambda>w. (Inr (), snd (m w)))"

definition clock :: "env \<Rightarrow> string io" where
  "clock env = (\<lambda>w. (Inr (fst (read_clock env w)), snd (read_clock env w)))"

text \<open>The store's error becomes the throw \<open>label failed: message\<close>.\<close>

definition or_fail :: "string \<Rightarrow> 'a io \<Rightarrow> 'a io" where
  "or_fail label m = io_catch m (\<lambda>msg. io_throw (label @ '' failed: '' @ msg))"

subsection \<open>lib/supabase.ts\<close>

text \<open>
  The client is created on the first call and kept; the environment does not change
  during a run, so every call throws or none does.
\<close>

definition getSupabase :: "env \<Rightarrow> unit thrown" where
  "getSupabase env =
     (if env_or env ''SUPABASE_SERVICE_ROLE_KEY'' [] = []
      then Inl ''Missing SUPABASE_SERVICE_ROLE_KEY'' else Inr ())"

text \<open>\<open>data || []\<close>\<close>

definition rows_of :: "jsval \<Rightarrow> jsval list" where
  "rows_of data = (case data of JArr rows \<Rightarrow> rows | _ \<Rightarrow> [])"


text \<open>The filters of \<open>loadMatchingAutomations\<close>: the last one only for a truthy value.\<close>

definition automation_filters ::
  "string \<Rightarrow> jsval \<Rightarrow> jsval \<Rightarrow> (string \<times> string) list thrown" where
  "automation_filters org trigger_type trigger_value =
     and_then (to_string trigger_type) (\<lambda>tt.
       let base = [(''org_id'', org), (''status'', ''published''), (''triggerType'', tt)]
       in if truthy trigger_value
          then and_then (to_string trigger_value) (\<lambda>tv. Inr (base @ [(''triggerValue'', tv)]))
          else Inr base)"

definition loadMatchingAutomations :: "env \<Rightarrow> string \<Rightarrow> jsval \<Rightarrow> jsval \<Rightarrow> jsval list io" where
  "loadMatchingAutomations env org trigger_type trigger_value =
     io_bind (io_of (getSupabase env)) (\<lambda>_.
     io_bind (io_of (automation_filters org trigger_type trigger_value)) (\<lambda>fs.
     io_bind (or_fail ''loadMatchingAutomations''
                (store_request env ''loadMatchingAutomations'' (Select ''automations'' fs None)))
       (\<lambda>data. io_return (rows_of data))))"


definition updateWorkflowRun :: "env \<Rightarrow> jsval \<Rightarrow> (string \<times> jsval) list \<Rightarrow> unit io" where
  "updateWorkflowRun env run_id updates =
     io_bind (io_of (getSupabase env)) (\<lambda>_.
     io_bind (io_of (to_string run_id)) (\<lambda>i.
     io_bind (or_fail ''updateWorkflowRun''
                (store_request env ''updateWorkflowRun''
                   (Update ''workflow_runs'' updates [(''id'', i)])))
       (\<lambda>_. io_return ())))"

definition logStepExecution :: "env \<Rightarrow> jsval \<Rightarrow> unit io" where
  "logStepExecution env params =
     io_bind (io_of (getSupabase env)) (\<lambda>_.
     io_bind (or_fail ''logStepExecution''
                (store_request env ''logStepExecution''
                   (Insert ''workflow_run_steps'' params False)))
       (\<lambda>_. io_return ()))"

subsection \<open>lib/twilio.ts and the other requests\<close>

text \<open>A request over HTTP: the answer, or the throw of a failed connection.\<close>

definition http_fetch :: "env \<Rightarrow> string \<Rightarrow> jsval \<Rightarrow> http_response io" where
  "http_fetch env url body =
     (\<lambda>w. (respond env (length (journal w)) (Fetch url body),
            w\<lparr>journal := journal w @ [Fetch url body]\<rparr>))"

text \<open>\<open>await wait.for({ seconds })\<close>: the run is suspended by the scheduler.\<close>

definition wait_for :: "env \<Rightarrow> jsnum \<Rightarrow> unit io" where
  "wait_for env seconds =
     (\<lambda>w. (case fault env (length (journal w)) (WaitFor seconds) of
              Some m \<Rightarrow> Inl m
            | None \<Rightarrow> Inr (),
            w\<lparr>journal := journal w @ [WaitFor seconds]\<rparr>))"

text \<open>\<open>v.k\<close> for a \<open>v\<close> that may be \<open>null\<close> or \<open>undefined\<close>.\<close>

definition member :: "jsval \<Rightarrow> string \<Rightarrow> jsval thrown" where
  "member v k =
     (if v = JNull \<or> v = JUndefined
      then Inl (''Cannot read properties of '' @ (if v = JNull then ''null'' else ''undefined'')
                @ '' (reading '' @ [CHR 0x27] @ k @ [CHR 0x27] @ '')'')
      else Inr (js_get v k))"

definition sendSms :: "env \<Rightarrow> jsval \<Rightarrow> string \<Rightarrow> string \<Rightarrow> jsval \<Rightarrow> jsval io" where
  "sendSms env messagingServiceSid to_addr body statusCallback =
     (let accountSid = env_or env ''TWILIO_ACCOUNT_SID'' [];
          authToken = env_or env ''TWILIO_AUTH_TOKEN'' []
      in if accountSid = [] \<or> authToken = []
         then io_throw ''Missing TWILIO_ACCOUNT_SID or TWILIO_AUTH_TOKEN''
         else if getenv env ''TWILIO_DISABLED'' = Some ''true''
         then io_throw ''Twilio is disabled via TWILIO_DISABLED env var''
         else
           io_bind (io_of (to_string messagingServiceSid)) (\<lambda>ms.
           io_bind (io_of (if truthy statusCallback
                           then and_then (to_string statusCallback)
                                  (\<lambda>cb. Inr [(''StatusCallback'', JStr cb)])
                           else Inr [])) (\<lambda>callback.
           io_bind (http_fetch env
                      (''https://api.twilio.com/2010-04-01/Accounts/'' @ accountSid
                       @ ''/Messages.json'')
                      (JObj ([(''MessagingServiceSid'', JStr ms), (''To'', JStr to_addr),
                              (''Body'', JStr body)] @ callback))) (\<lambda>resp.
           io_bind (io_of (json_body resp)) (\<lambda>data.
             if \<not> ok resp
             then io_bind (io_of (member data ''message'')) (\<lambda>m.
                  io_bind (io_of (to_string (js_or m (JStr (stringify env data))))) (\<lambda>t.
                  io_throw (''Twilio send failed: '' @ t)))
             else io_bind (io_of (member data ''sid'')) (\<lambda>sid.
                  io_return (JObj [(''sid'', sid), (''status'', js_get data ''status''),
                                   (''to'', js_get data ''to''),
                                   (''body'', js_get data ''body'')])))))))"

definition ORG_MESSAGING_SERVICES :: "env \<Rightarrow> jsval" where
  "ORG_MESSAGING_SERVICES env =
     JObj [(''vector'', JStr (env_or env ''TWILIO_MS_VECTOR'' [])),
           (''bmg'', JStr (env_or env ''TWILIO_MS_BMG'' [])),
           (''stucco'', JStr (env_or env ''TWILIO_MS_STUCCO'' []))]"

definition getMessagingServiceForOrg :: "env \<Rightarrow> string \<Rightarrow> jsval thrown" where
  "getMessagingServiceForOrg env org_slug =
     (let sid = js_get (ORG_MESSAGING_SERVICES env) org_slug
      in if \<not> truthy sid
         then Inl (''No Messaging Service SID configured for org: '' @ org_slug)
         else Inr sid)"

section \<open>jobs/workflow-runner.ts\<close>

subsection \<open>Step executors\<close>

text \<open>\<open>Number(config.a || config.b || 0)\<close>\<close>

definition wait_delay :: "jsval \<Rightarrow> string \<Rightarrow> string \<Rightarrow> jsnum thrown" where
  "wait_delay config a b =
     to_number (js_or (js_or (js_get config a) (js_get config b)) (JNum (Fin 0)))"

definition total_seconds :: "jsnum \<Rightarrow> jsnum \<Rightarrow> jsnum \<Rightarrow> jsnum" where
  "total_seconds delayMinutes delayHours delayDays =
     num_add (num_add (num_mul delayMinutes (Fin 60)) (num_mul delayHours (Fin 3600)))
       (num_mul delayDays (Fin 86400))"

definition executeWaitStep :: "env \<Rightarrow> jsval \<Rightarrow> jsval io" where
  "executeWaitStep env config =
     io_bind (io_of (wait_delay config ''delayMinutes'' ''delay_minutes'')) (\<lambda>delayMinutes.
     io_bind (io_of (wait_delay config ''delayHours'' ''delay_hours'')) (\<lambda>delayHours.
     io_bind (io_of (wait_delay config ''delayDays'' ''delay_days'')) (\<lambda>delayDays.
       let totalSeconds = total_seconds delayMinutes delayHours delayDays
       in if num_less (Fin 0) totalSeconds
          then io_bind (wait_for env totalSeconds) (\<lambda>_.
               io_return (JObj [(''waited'', JBool True), (''seconds'', JNum totalSeconds)]))
          else io_return (JObj [(''waited'', JBool False),
                                (''reason'', JStr ''no delay configured'')]))))"

text \<open>\<open>interpolate(String(v), context)\<close>\<close>

definition interpolated :: "jsval \<Rightarrow> jsval \<Rightarrow> string thrown" where
  "interpolated v ctx = and_then (to_string v) (\<lambda>t. interpolate t ctx)"

definition skipped :: "string \<Rightarrow> jsval" where
  "skipped reason = JObj [(''skipped'', JBool True), (''reason'', JStr reason)]"

definition send_sms :: "env \<Rightarrow> jsval \<Rightarrow> jsval \<Rightarrow> string \<Rightarrow> jsval io" where
  "send_sms env config ctx org_slug =
     io_bind (io_of (interpolated (js_or (js_get config ''to'') (JStr [])) ctx)) (\<lambda>to_addr.
     io_bind (io_of (interpolated
                (js_or (js_or (js_get config ''body'') (js_get config ''message'')) (JStr []))
                ctx)) (\<lambda>body.
       if to_addr = [] \<or> body = [] then io_return (skipped ''missing to or body'')
       else
         io_bind (io_of (getMessagingServiceForOrg env org_slug)) (\<lambda>msSid.
         io_bind (sendSms env msSid to_addr body JUndefined) (\<lambda>result.
         io_bind (io_of (getSupabase env)) (\<lambda>_.
         io_bind (ignoring (store_request env ''executeActionStep''
                    (Insert ''messages''
                       (JObj [(''org_id'', js_get ctx ''orgId''),
                              (''direction'', JStr ''outbound''),
                              (''to_number'', JStr to_addr),
                              (''body'', JStr body),
                              (''status'', js_get result ''status''),
                              (''twilio_sid'', js_get result ''sid''),
                              (''channel'', JStr ''sms''),
                              (''contact_id'', js_or (js_get ctx ''contactId'') JNull),
                              (''automation_id'', js_or (js_get ctx ''automationId'') JNull)])
                       False))) (\<lambda>_.
         io_return (JObj [(''sent'', JBool True), (''sid'', js_get result ''sid''),
                          (''status'', js_get result ''status'')])))))))"

definition send_email :: "env \<Rightarrow> jsval \<Rightarrow> jsval \<Rightarrow> jsval io" where
  "send_email env config ctx =
     io_bind (io_of (interpolated (js_or (js_get config ''to'') (JStr [])) ctx)) (\<lambda>to_addr.
     io_bind (io_of (interpolated (js_or (js_get config ''subject'') (JStr [])) ctx)) (\<lambda>subject.
     io_bind (io_of (interpolated (js_or (js_get config ''body'') (JStr [])) ctx)) (\<lambda>body.
       if to_addr = [] \<or> subject = [] \<or> body = []
       then io_return (skipped ''missing to, subject, or body'')
       else
         io_bind (http_fetch env
                    (env_or env ''CRM_BASE_URL'' ''https://vector-crm.vercel.app''
                     @ ''/api/send-email'')
                    (JObj [(''to'', JStr to_addr), (''subject'', JStr subject),
                           (''body'', JStr body)])) (\<lambda>resp.
           if \<not> ok resp then io_throw (''send-email failed: '' @ text_body resp)
           else io_return (JObj [(''sent'', JBool True), (''to'', JStr to_addr),
                                 (''subject'', JStr subject)])))))"

definition create_task :: "env \<Rightarrow> jsval \<Rightarrow> jsval \<Rightarrow> jsval io" where
  "create_task env config ctx =
     io_bind (io_of (interpolated (js_or (js_get config ''title'') (JStr ''Follow up'')) ctx))
       (\<lambda>title.
     io_bind (io_of (interpolated (js_or (js_get config ''description'') (JStr [])) ctx))
       (\<lambda>description.
     io_bind (io_of (to_number (js_or (js_get config ''dueInDays'') (JNum (Fin 1)))))
       (\<lambda>dueInDays.
     io_bind (clock env) (\<lambda>today.
     io_bind (io_of (getSupabase env)) (\<lambda>_.
     io_bind (io_of (add_days env today dueInDays)) (\<lambda>due_date.
     io_bind (io_of (if truthy (js_get ctx ''entityId'')
                     then and_then (to_string (js_get ctx ''entityId'')) (\<lambda>t. Inr (JStr t))
                     else Inr JNull)) (\<lambda>entity_id.
     io_bind (or_fail ''create_task''
                (store_request env ''executeActionStep''
                   (Insert ''tasks''
                      (JObj [(''org_id'', js_get ctx ''orgId''),
                             (''title'', JStr title),
                             (''description'', JStr description),
                             (''due_date'', JStr due_date),
                             (''status'', JStr ''pending''),
                             (''entity_type'', js_or (js_get ctx ''entityType'') JNull),
                             (''entity_id'', entity_id),
                             (''assigned_to'', js_or (js_get config ''assignedTo'') JNull)])
                      True))) (\<lambda>data.
     io_return (JObj [(''created'', JBool True), (''taskId'', js_get data ''id'')])))))))))"

definition update_field :: "env \<Rightarrow> jsval \<Rightarrow> jsval \<Rightarrow> jsval io" where
  "update_field env config ctx =
     io_bind (io_of (to_string (js_or (js_get config ''table'') (JStr [])))) (\<lambda>table.
     io_bind (io_of (to_string (js_or (js_get config ''field'') (JStr [])))) (\<lambda>field.
       let v = js_get config ''value'';
           entity_id = js_get ctx ''entityId''
       in if table = [] \<or> field = [] \<or> \<not> truthy entity_id
          then io_return (skipped ''missing table, field, or entityId'')
          else
            io_bind (io_of (getSupabase env)) (\<lambda>_.
            io_bind (io_of (to_string entity_id)) (\<lambda>i.
            io_bind (or_fail ''update_field''
                       (store_request env ''executeActionStep''
                          (Update table [(field, v)] [(''id'', i)]))) (\<lambda>_.
            io_return (JObj [(''updated'', JBool True), (''table'', JStr table),
                             (''field'', JStr field), (''value'', v)]))))))"

definition webhook :: "env \<Rightarrow> jsval \<Rightarrow> jsval \<Rightarrow> jsval io" where
  "webhook env config ctx =
     io_bind (io_of (to_string (js_or (js_get config ''url'') (JStr [])))) (\<lambda>url.
       if url = [] then io_return (skipped ''no webhook URL'')
       else io_bind (http_fetch env url ctx) (\<lambda>resp.
            io_return (JObj [(''sent'', JBool True), (''status'', status resp)])))"

definition executeActionStep :: "env \<Rightarrow> jsval \<Rightarrow> jsval \<Rightarrow> jsval \<Rightarrow> string \<Rightarrow> jsval io" where
  "executeActionStep env actionType config ctx org_slug =
     (if actionType = JStr ''send_sms'' then send_sms env config ctx org_slug
      else if actionType = JStr ''send_email'' then send_email env config ctx
      else if actionType = JStr ''create_task'' then create_task env config ctx
      else if actionType = JStr ''update_field'' then update_field env config ctx
      else if actionType = JStr ''webhook'' then webhook env config ctx
      else io_bind (io_of (to_string actionType)) (\<lambda>t.
           io_return (skipped (''unknown actionType: '' @ t))))"

subsection \<open>Running one automation\<close>

record event_params =
  eventId :: jsnum
  orgId :: string
  orgSlug :: string
  eventType :: string
  entityType :: string
  entityId :: jsval
  payload :: "(string \<times> jsval) list"

record run_params = event_params +
  automationId :: jsval
  automationName :: jsval

text \<open>\<open>{ orgId, orgSlug, entityId, ...payload }\<close>\<close>

definition initial_context :: "string \<Rightarrow> string \<Rightarrow> jsval \<Rightarrow> (string \<times> jsval) list \<Rightarrow> jsval" where
  "initial_context org org_slug entity_id pl =
     JObj (obj_assign [(''orgId'', JStr org), (''orgSlug'', JStr org_slug),
                       (''entityId'', entity_id)] pl)"

text \<open>
  The \<open>switch\<close> on the step type. The result is the step's result record and the new
  value of \<open>shouldContinue\<close>.
\<close>

definition execute_step ::
  "env \<Rightarrow> jsval \<Rightarrow> jsval \<Rightarrow> jsval \<Rightarrow> jsval \<Rightarrow> string \<Rightarrow> (jsval \<times> bool) io" where
  "execute_step env stepType actionType config ctx org_slug =
     (if stepType = JStr ''Trigger''
      then io_return (skipped ''trigger step'', True)
      else if stepType = JStr ''Wait''
      then io_bind (executeWaitStep env config) (\<lambda>r. io_return (r, True))
      else if stepType = JStr ''Action''
      then io_bind (executeActionStep env actionType config ctx org_slug)
             (\<lambda>r. io_return (r, True))
      else if stepType = JStr ''Condition''
      then io_bind (io_of (evaluateCondition config ctx)) (\<lambda>passed.
             if \<not> passed \<and> truthy (js_get config ''stopOnFalse'')
             then io_return (JObj [(''conditionPassed'', JBool passed),
                                   (''stopped'', JBool True)], False)
             else io_return (JObj [(''conditionPassed'', JBool passed)], True))
      else io_bind (io_of (to_string stepType)) (\<lambda>t.
           io_return (skipped (''unknown stepType: '' @ t), True)))"

text \<open>The record handed to \<open>logStepExecution\<close>; \<open>outcome\<close> is the status with the
  result or the error message.\<close>

definition step_record ::
  "jsval \<Rightarrow> jsval \<Rightarrow> jsval \<Rightarrow> jsval \<Rightarrow> (string \<times> jsval) list \<Rightarrow> string \<Rightarrow> string \<Rightarrow> jsval" where
  "step_record run_id step stepType actionType outcome startedAt completedAt =
     JObj ([(''run_id'', run_id),
            (''step_id'', js_get step ''id''),
            (''step_order'', js_or (js_get step ''stepOrder'') (js_get step ''step_order'')),
            (''step_type'', stepType),
            (''action_type'', actionType)]
           @ outcome
           @ [(''started_at'', JStr startedAt), (''completed_at'', JStr completedAt)])"

definition completed_outcome :: "jsval \<Rightarrow> (string \<times> jsval) list" where
  "completed_outcome result = [(''status'', JStr ''completed''), (''result'', result)]"

definition failed_outcome :: "string \<Rightarrow> (string \<times> jsval) list" where
  "failed_outcome errMsg = [(''status'', JStr ''failed''), (''error_message'', JStr errMsg)]"

definition failed_update :: "string \<Rightarrow> string \<Rightarrow> (string \<times> jsval) list" where
  "failed_update errMsg t =
     [(''status'', JStr ''failed''), (''error'', JStr errMsg), (''completed_at'', JStr t)]"

definition completed_update :: "string \<Rightarrow> (string \<times> jsval) list" where
  "completed_update t = [(''status'', JStr ''completed''), (''completed_at'', JStr t)]"

text \<open>The type, the action and the configuration of a step, as the loop reads them.\<close>

definition step_type :: "jsval \<Rightarrow> jsval" where
  "step_type step = js_or (js_or (js_get step ''stepType'') (js_get step ''step_type'')) (JStr [])"

definition action_type :: "jsval \<Rightarrow> jsval" where
  "action_type step =
     js_or (js_or (js_get step ''actionType'') (js_get step ''action_type'')) (JStr [])"

definition step_config :: "jsval \<Rightarrow> jsval" where
  "step_config step = js_or (js_get step ''config'') (JObj [])"

text \<open>
  The body of the loop over the steps, after the test of \<open>shouldContinue\<close>: the
  \<open>try\<close> block executes the step and logs it as completed, the \<open>catch\<close> block logs it
  as failed, sets the run to failed and throws. The result is the new value of
  \<open>shouldContinue\<close>.
\<close>

definition run_step :: "env \<Rightarrow> jsval \<Rightarrow> jsval \<Rightarrow> string \<Rightarrow> jsval \<Rightarrow> bool io" where
  "run_step env run_id ctx org_slug step =
     io_bind (clock env) (\<lambda>startedAt.
       let stepType = step_type step;
           actionType = action_type step;
           config = step_config step
       in io_catch
            (io_bind (execute_step env stepType actionType config ctx org_slug)
               (\<lambda>(result, continue).
             io_bind (clock env) (\<lambda>completedAt.
             io_bind (logStepExecution env
                        (step_record run_id step stepType actionType
                           (completed_outcome result) startedAt completedAt)) (\<lambda>_.
             io_return continue))))
            (\<lambda>errMsg.
             io_bind (clock env) (\<lambda>completedAt.
             io_bind (logStepExecution env
                        (step_record run_id step stepType actionType
                           (failed_outcome errMsg) startedAt completedAt)) (\<lambda>_.
             io_bind (clock env) (\<lambda>t.
             io_bind (updateWorkflowRun env run_id (failed_update errMsg t)) (\<lambda>_.
             io_bind (io_of (to_string (js_get step ''stepOrder''))) (\<lambda>step_order.
             io_bind (io_of (to_string actionType)) (\<lambda>action.
             io_throw (''Step '' @ step_order @ '' ('' @ action @ '') failed: ''
                       @ errMsg)))))))))"

text \<open>
  The loop \<open>for (const step of steps) { if (!shouldContinue) break; ... }\<close> on its
  state, the pair of \<open>stepsExecuted\<close> and \<open>shouldContinue\<close>.
\<close>

fun run_steps ::
  "env \<Rightarrow> jsval \<Rightarrow> jsval \<Rightarrow> string \<Rightarrow> jsval list \<Rightarrow> nat \<times> bool \<Rightarrow> (nat \<times> bool) io" where
  "run_steps env run_id ctx org_slug [] st = io_return st"
| "run_steps env run_id ctx org_slug (step # rest) st =
     (if \<not> snd st then io_return st
      else io_bind (run_step env run_id ctx org_slug step) (\<lambda>continue.
           run_steps env run_id ctx org_slug rest (fst st + 1, continue)))"





subsection \<open>Routing an event\<close>

definition triggerTypeMap :: jsval where
  "triggerTypeMap =
     JObj [(''lead.created'', JStr ''contact_created''),
           (''pipeline.stage_changed'', JStr ''pipeline_stage_change''),
           (''quote.viewed'', JStr ''quote_viewed''),
           (''quote.sent'', JStr ''quote_sent''),
           (''quote.signed'', JStr ''quote_signed''),
           (''sms.inbound'', JStr ''sms_received''),
           (''project.status_changed'', JStr ''project_status_change''),
           (''project.created'', JStr ''project_created''),
           (''email.received'', JStr ''email_received'')]"

definition trigger_type_of :: "string \<Rightarrow> jsval" where
  "trigger_type_of event_type = js_or (js_get triggerTypeMap event_type) (JStr event_type)"

definition trigger_value_of :: "(string \<times> jsval) list \<Rightarrow> jsval" where
  "trigger_value_of pl = js_or (js_get (JObj pl) ''triggerValue'') JUndefined"






section \<open>Notions used in the properties\<close>


text \<open>
  A value that is not an object: \<open>undefined\<close>, \<open>null\<close>, a boolean, a number or a
  string (or a built-in function).
\<close>

definition primitive :: "jsval \<Rightarrow> bool" where
  "primitive v = (typeof v \<noteq> ''object'' \<or> v = JNull)"

text \<open>A dotted path: every segment between the dots is a non-empty run of word characters.\<close>

definition dotted_path :: "string \<Rightarrow> bool" where
  "dotted_path p = list_all (\<lambda>seg. seg \<noteq> [] \<and> list_all is_word seg) (split_dot p)"

text \<open>What may follow in a dotted path after a prefix of it; need: a word character must come.\<close>

fun path_rest :: "bool \<Rightarrow> string \<Rightarrow> bool" where
  "path_rest need [] = (\<not> need)"
| "path_rest need (c # cs) =
     (if is_word c then path_rest False cs
      else \<not> need \<and> c = CHR ''.'' \<and> path_rest True cs)"

text \<open>
  An outside world for the examples: the store, the scheduler and the runtime accept
  every request, and no HTTP endpoint can be reached.
\<close>

definition example_env :: env where
  "example_env =
     \<lparr>getenv = map_of [(''SUPABASE_SERVICE_ROLE_KEY'', ''service-key''),
                       (''TWILIO_ACCOUNT_SID'', ''AC1''), (''TWILIO_AUTH_TOKEN'', ''token''),
                       (''TWILIO_MS_VECTOR'', ''MG1'')],
      fault = (\<lambda>n e. None),
      new_id = (\<lambda>n. Fin (of_nat n + 100)),
      now = (\<lambda>k. ''T'' @ show_nat k),
      respond = (\<lambda>n e. Inl ''connection refused''),
      add_days = (\<lambda>t d. Inr t),
      stringify = (\<lambda>v. ''{}''),
      awaited = (\<lambda>r. r)\<rparr>"

definition empty_world :: world where
  "empty_world = \<lparr>tables = [], journal = [], clock_reads = 0\<rparr>"

text \<open>
  \<open>emits P m\<close>: whatever the world, \<open>m\<close> only appends to the journal, and every
  entry it appends satisfies \<open>P\<close>.
\<close>

definition emits :: "(effect \<Rightarrow> bool) \<Rightarrow> 'a io \<Rightarrow> bool" where
  "emits P m = (\<forall>w. \<exists>es. journal (snd (m w)) = journal w @ es \<and> list_all P es)"




text \<open>The journal entries of \<open>logStepExecution\<close> and of \<open>updateWorkflowRun\<close>.\<close>

definition log_entry :: "jsval \<Rightarrow> effect" where
  "log_entry row = Store ''logStepExecution'' (Insert ''workflow_run_steps'' row False)"

definition update_entry :: "jsnum \<Rightarrow> (string \<times> jsval) list \<Rightarrow> effect" where
  "update_entry i updates =
     Store ''updateWorkflowRun'' (Update ''workflow_runs'' updates [(''id'', num_to_string i)])"

text \<open>A write of \<open>updateWorkflowRun\<close> that sets the status \<open>failed\<close>.\<close>

fun is_failed_update :: "effect \<Rightarrow> bool" where
  "is_failed_update (Store c (Update t updates fs)) =
     (c = ''updateWorkflowRun'' \<and> map_of updates ''status'' = Some (JStr ''failed''))"
| "is_failed_update _ = False"





text \<open>
  Examples: an automation on the pipeline stage \<open>won\<close>; and an automation on inbound
  SMS with two steps, a condition on \<open>STOP\<close> that stops the run when it is false and
  an SMS action.
\<close>

definition won_automation :: jsval where
  "won_automation =
     JObj [(''id'', JNum (Fin 1)), (''org_id'', JNum (Fin 7)), (''name'', JStr ''Deal won''),
           (''status'', JStr ''published''), (''triggerType'', JStr ''pipeline_stage_change''),
           (''triggerValue'', JStr ''won'')]"

definition pipeline_world :: world where
  "pipeline_world = \<lparr>tables = [(''automations'', [won_automation])], journal = [], clock_reads = 0\<rparr>"

definition stage_event :: "(string \<times> jsval) list \<Rightarrow> event_params" where
  "stage_event pl =
     \<lparr>eventId = Fin 5, orgId = ''7'', orgSlug = ''vector'',
      eventType = ''pipeline.stage_changed'', entityType = ''project'',
      entityId = JNum (Fin 3), payload = pl\<rparr>"







section \<open>Properties\<close>

subsection \<open>The initial context of a run\<close>

lemma map_of_obj_assign:
  "map_of (obj_assign target src) k =
     (case map_of src k of Some v \<Rightarrow> Some v | None \<Rightarrow> map_of target k)"
proof -
  have kept: "map_of (map (\<lambda>(k, v). (k, case map_of src k of None \<Rightarrow> v | Some v' \<Rightarrow> v')) target) k =
        (case map_of target k of None \<Rightarrow> None
         | Some v \<Rightarrow> Some (case map_of src k of None \<Rightarrow> v | Some v' \<Rightarrow> v'))"
    by (induction target) (auto split: option.splits)
  have added: "map_of (filter (\<lambda>(k, v). map_of target k = None) src) k =
        (if map_of target k = None then map_of src k else None)"
    by (induction src) (auto split: option.splits)
  show ?thesis
    unfolding obj_assign_def map_of_append map_add_def kept added
    by (auto split: option.splits)
qed

lemma js_get_JObj:
  "js_get (JObj kvs) k = (case map_of kvs k of Some v \<Rightarrow> v | None \<Rightarrow> js_get (JObj []) k)"
  by (auto simp: js_get_def get_property_def split: option.splits)

text \<open>
  Claim C1 says that the initial context binds \<open>orgId\<close>, \<open>orgSlug\<close> and
  \<open>entityId\<close> to the run's own values whatever the payload holds. The source spreads
  the payload after the three keys, so a payload key of one of these names replaces the
  run's value: here a payload with \<open>orgId = "intruder"\<close> in a run of the organisation
  \<open>"acme"\<close>.
\<close>

theorem fixed_keys_counterexample:
  "js_get (initial_context ''acme'' ''acme-slug'' (JNum (Fin 7)) [(''orgId'', JStr ''intruder'')])
      ''orgId'' = JStr ''intruder''
   \<and> js_get (initial_context ''acme'' ''acme-slug'' (JNum (Fin 7)) [(''orgId'', JStr ''intruder'')])
      ''orgId'' \<noteq> JStr ''acme''"
  by code_simp

text \<open>
  Claim C1, amended: every key of the payload is bound in the initial context to the
  value the payload gives it, also when the key is \<open>orgId\<close>, \<open>orgSlug\<close> or
  \<open>entityId\<close>; a key the payload does not hold is read as in the record of the run's
  own \<open>orgId\<close>, \<open>orgSlug\<close> and \<open>entityId\<close>.
\<close>

theorem initial_context_payload_wins:
  "js_get (initial_context org slug entity pl) k =
     (case map_of pl k of
        Some v \<Rightarrow> v
      | None \<Rightarrow> js_get (JObj [(''orgId'', JStr org), (''orgSlug'', JStr slug),
                               (''entityId'', entity)]) k)"
proof -
  let ?fixed = "[(''orgId'', JStr org), (''orgSlug'', JStr slug), (''entityId'', entity)]"
  have merged: "js_get (initial_context org slug entity pl) k =
      (case map_of (obj_assign ?fixed pl) k of Some v \<Rightarrow> v | None \<Rightarrow> js_get (JObj []) k)"
    unfolding initial_context_def by (rule js_get_JObj)
  have fixed: "js_get (JObj ?fixed) k =
      (case map_of ?fixed k of Some v \<Rightarrow> v | None \<Rightarrow> js_get (JObj []) k)"
    by (rule js_get_JObj)
  show ?thesis
    unfolding merged fixed map_of_obj_assign by (simp split: option.splits)
qed

theorem initial_context_payload_wins_witness:
  "js_get (initial_context ''acme'' ''acme-slug'' (JNum (Fin 7))
             [(''stage'', JStr ''won''), (''orgSlug'', JStr ''other'')]) ''orgSlug''
     = JStr ''other''
   \<and> js_get (initial_context ''acme'' ''acme-slug'' (JNum (Fin 7))
             [(''stage'', JStr ''won''), (''orgSlug'', JStr ''other'')]) ''orgId''
     = JStr ''acme''"
  using initial_context_payload_wins [of "''acme''" "''acme-slug''" "JNum (Fin 7)"
          "[(''stage'', JStr ''won''), (''orgSlug'', JStr ''other'')]" "''orgSlug''"]
        initial_context_payload_wins [of "''acme''" "''acme-slug''" "JNum (Fin 7)"
          "[(''stage'', JStr ''won''), (''orgSlug'', JStr ''other'')]" "''orgId''"]
  by (simp add: js_get_def get_property_def)

subsection \<open>The condition evaluator\<close>









text \<open>
  Claim C9: when the operator of a condition is absent or the empty string, the
  evaluator compares the string forms of the resolved field and of \<open>config.value\<close>, as
  \<open>equals\<close> does; an unknown operator gives false on the same input.
\<close>

theorem evaluateCondition_default_operator:
  assumes "js_get config ''operator'' = JUndefined \<or> js_get config ''operator'' = JStr []"
    and "to_string (js_or (js_get config ''field'') (JStr [])) = Inr f"
    and "to_string (getNestedValue ctx f) = Inr a"
    and "to_string (js_get config ''value'') = Inr b"
  shows "evaluateCondition config ctx = Inr (a = b)"
  using assms by (auto simp: evaluateCondition_def and_then_def js_or_def)

theorem evaluateCondition_default_operator_witness:
  "evaluateCondition (JObj [(''field'', JStr ''count''), (''value'', JStr ''5'')])
      (JObj [(''count'', JNum (Fin 5))]) = Inr (''5'' = ''5'')
   \<and> evaluateCondition (JObj [(''field'', JStr ''count''), (''value'', JStr ''5''),
                              (''operator'', JStr [])])
      (JObj [(''count'', JNum (Fin 5))]) = Inr (''5'' = ''5'')
   \<and> evaluateCondition (JObj [(''field'', JStr ''count''), (''value'', JStr ''5''),
                              (''operator'', JStr ''between'')])
      (JObj [(''count'', JNum (Fin 5))]) = Inr False"
proof -
  let ?absent = "JObj [(''field'', JStr ''count''), (''value'', JStr ''5'')]"
  let ?empty = "JObj [(''field'', JStr ''count''), (''value'', JStr ''5''), (''operator'', JStr [])]"
  let ?ctx = "JObj [(''count'', JNum (Fin 5))]"
  have absent: "js_get ?absent ''operator'' = JUndefined \<or> js_get ?absent ''operator'' = JStr []"
    by code_simp
  have empty: "js_get ?empty ''operator'' = JUndefined \<or> js_get ?empty ''operator'' = JStr []"
    by code_simp
  have f1: "to_string (js_or (js_get ?absent ''field'') (JStr [])) = Inr ''count''"
    by code_simp
  have f2: "to_string (js_or (js_get ?empty ''field'') (JStr [])) = Inr ''count''"
    by code_simp
  have a: "to_string (getNestedValue ?ctx ''count'') = Inr ''5''"
    by code_simp
  have b1: "to_string (js_get ?absent ''value'') = Inr ''5''"
    by code_simp
  have b2: "to_string (js_get ?empty ''value'') = Inr ''5''"
    by code_simp
  have unknown: "evaluateCondition (JObj [(''field'', JStr ''count''), (''value'', JStr ''5''),
                              (''operator'', JStr ''between'')]) ?ctx = Inr False"
    by code_simp
  show ?thesis
    using evaluateCondition_default_operator [OF absent f1 a b1]
          evaluateCondition_default_operator [OF empty f2 a b2] unknown
    by blast
qed

subsection \<open>The Wait step\<close>


lemma executeWaitStep_converted:
  assumes "wait_delay config ''delayMinutes'' ''delay_minutes'' = Inr dm"
    and "wait_delay config ''delayHours'' ''delay_hours'' = Inr dh"
    and "wait_delay config ''delayDays'' ''delay_days'' = Inr dd"
  shows "executeWaitStep env config =
     (if num_less (Fin 0) (total_seconds dm dh dd)
      then io_bind (wait_for env (total_seconds dm dh dd)) (\<lambda>_.
           io_return (JObj [(''waited'', JBool True),
                            (''seconds'', JNum (total_seconds dm dh dd))]))
      else io_return (JObj [(''waited'', JBool False),
                            (''reason'', JStr ''no delay configured'')]))"
  using assms by (simp add: executeWaitStep_def io_bind_def io_of_def Let_def)



lemma num_mul_nonpositive:
  "\<not> num_less (Fin 0) x \<Longrightarrow> 0 < k \<Longrightarrow>
     num_mul x (Fin k) = NaN \<or> num_mul x (Fin k) = NInf
     \<or> (\<exists>q. num_mul x (Fin k) = Fin q \<and> q \<le> 0)"
  by (cases x) (auto simp: mult_le_0_iff)

lemma num_add_nonpositive:
  assumes "x = NaN \<or> x = NInf \<or> (\<exists>q. x = Fin q \<and> q \<le> 0)"
    and "y = NaN \<or> y = NInf \<or> (\<exists>q. y = Fin q \<and> q \<le> 0)"
  shows "num_add x y = NaN \<or> num_add x y = NInf \<or> (\<exists>q. num_add x y = Fin q \<and> q \<le> 0)"
  using assms by (cases x; cases y) auto

lemma total_seconds_nonpositive:
  assumes "\<not> num_less (Fin 0) dm" "\<not> num_less (Fin 0) dh" "\<not> num_less (Fin 0) dd"
  shows "\<not> num_less (Fin 0) (total_seconds dm dh dd)"
proof -
  have m: "num_mul dm (Fin 60) = NaN \<or> num_mul dm (Fin 60) = NInf
     \<or> (\<exists>q. num_mul dm (Fin 60) = Fin q \<and> q \<le> 0)"
    using assms(1) by (intro num_mul_nonpositive) simp_all
  have h: "num_mul dh (Fin 3600) = NaN \<or> num_mul dh (Fin 3600) = NInf
     \<or> (\<exists>q. num_mul dh (Fin 3600) = Fin q \<and> q \<le> 0)"
    using assms(2) by (intro num_mul_nonpositive) simp_all
  have d: "num_mul dd (Fin 86400) = NaN \<or> num_mul dd (Fin 86400) = NInf
     \<or> (\<exists>q. num_mul dd (Fin 86400) = Fin q \<and> q \<le> 0)"
    using assms(3) by (intro num_mul_nonpositive) simp_all
  have "total_seconds dm dh dd = NaN \<or> total_seconds dm dh dd = NInf
     \<or> (\<exists>q. total_seconds dm dh dd = Fin q \<and> q \<le> 0)"
    unfolding total_seconds_def by (intro num_add_nonpositive m h d)
  then show ?thesis by auto
qed

lemma to_number_primitive: "primitive v \<Longrightarrow> \<exists>n. to_number v = Inr n"
  by (cases v) (auto simp: primitive_def typeof_def)

lemma wait_delay_primitive:
  assumes "primitive (js_get config a)" and "primitive (js_get config b)"
  shows "\<exists>n. wait_delay config a b = Inr n"
proof -
  have "primitive (js_or (js_or (js_get config a) (js_get config b)) (JNum (Fin 0)))"
    using assms by (auto simp: js_or_def primitive_def typeof_def)
  then show ?thesis unfolding wait_delay_def by (rule to_number_primitive)
qed

text \<open>
  Claim C10 says that \<open>executeWaitStep\<close> is total over arbitrary configurations. It
  is not: \<open>Number\<close> throws a TypeError on an object that has an own \<open>toString\<close>
  property, and the step throws with it, in every world.
\<close>

theorem executeWaitStep_throws_counterexample:
  "\<forall>env w. executeWaitStep env (JObj [(''delayMinutes'', JObj [(''toString'', JNum (Fin 1))])]) w
      = (Inl ''Cannot convert object to primitive value'', w)"
  by (simp add: executeWaitStep_def wait_delay_def io_bind_def io_of_def js_get_def
      get_property_def js_or_def type_error_def)

text \<open>
  Claim C10, amended: when the three delays read from the configuration are numbers
  none of which is greater than 0 (each is negative, zero or NaN), the step returns
  \<open>{waited: false}\<close> without suspending and without throwing. When the three
  conversions succeed and the scheduler accepts the wait, the step returns; and the
  conversion of a delay succeeds whenever its two fields are not objects.
\<close>

theorem executeWaitStep_nonpositive:
  assumes "wait_delay config ''delayMinutes'' ''delay_minutes'' = Inr dm"
    and "wait_delay config ''delayHours'' ''delay_hours'' = Inr dh"
    and "wait_delay config ''delayDays'' ''delay_days'' = Inr dd"
  shows "(\<not> num_less (Fin 0) dm \<and> \<not> num_less (Fin 0) dh \<and> \<not> num_less (Fin 0) dd \<longrightarrow>
           executeWaitStep env config w =
             (Inr (JObj [(''waited'', JBool False), (''reason'', JStr ''no delay configured'')]),
              w))
     \<and> (fault env (length (journal w)) (WaitFor (total_seconds dm dh dd)) = None \<longrightarrow>
          (\<exists>r w'. executeWaitStep env config w = (Inr r, w')))
     \<and> (primitive (js_get config a) \<and> primitive (js_get config b) \<longrightarrow>
          (\<exists>n. wait_delay config a b = Inr n))"
  unfolding executeWaitStep_converted [OF assms]
  using total_seconds_nonpositive [of dm dh dd] wait_delay_primitive [of config a b]
  by (auto simp: io_bind_def io_return_def wait_for_def)

theorem executeWaitStep_nonpositive_witness:
  "executeWaitStep example_env
      (JObj [(''delayMinutes'', JNum (Fin (- 5))), (''delayHours'', JStr ''soon'')]) empty_world =
     (Inr (JObj [(''waited'', JBool False), (''reason'', JStr ''no delay configured'')]),
      empty_world)"
proof -
  let ?config = "JObj [(''delayMinutes'', JNum (Fin (- 5))), (''delayHours'', JStr ''soon'')]"
  have m: "wait_delay ?config ''delayMinutes'' ''delay_minutes'' = Inr (Fin (- 5))" by code_simp
  have h: "wait_delay ?config ''delayHours'' ''delay_hours'' = Inr NaN" by code_simp
  have d: "wait_delay ?config ''delayDays'' ''delay_days'' = Inr (Fin 0)" by code_simp
  show ?thesis
    using executeWaitStep_nonpositive [OF m h d, of example_env empty_world]
    by simp
qed

subsection \<open>Interpolation\<close>

lemma not_word_dot [simp]: "\<not> is_word CHR ''.''"
  by (simp add: is_word_def)

lemma not_word_brace [simp]: "\<not> is_word CHR ''}''"
  by (simp add: is_word_def)

lemma split_dot_not_Nil [simp]: "split_dot s \<noteq> []"
  by (induction s) (auto split: list.splits)

lemma path_rest_split:
  "path_rest need s =
     (case split_dot s of
        [] \<Rightarrow> False
      | seg # segs \<Rightarrow> (need \<longrightarrow> seg \<noteq> []) \<and> list_all is_word seg
                      \<and> list_all (\<lambda>seg. seg \<noteq> [] \<and> list_all is_word seg) segs)"
proof (induction s arbitrary: need)
  case Nil
  then show ?case by simp
next
  case (Cons c cs)
  obtain seg segs where sp: "split_dot cs = seg # segs"
    by (cases "split_dot cs") auto
  show ?case
  proof (cases "c = CHR ''.''")
    case True
    then show ?thesis using Cons [of True] sp by auto
  next
    case False
    then show ?thesis using Cons [of False] sp by auto
  qed
qed

lemma dotted_path_rest: "dotted_path p = path_rest True p"
  unfolding dotted_path_def path_rest_split by (auto split: list.splits)

lemma match_path_complete:
  "path_rest need q \<Longrightarrow> match_path need acc (q @ ''}}'' @ r) = Some (acc @ q, r)"
proof (induction q arbitrary: need acc)
  case Nil
  then show ?case by simp
next
  case (Cons c cs)
  show ?case
  proof (cases "is_word c")
    case True
    with Cons.prems have "path_rest False cs" by simp
    from Cons.IH [OF this, of "acc @ [c]"] True show ?thesis by simp
  next
    case False
    with Cons.prems have c: "\<not> need" "c = CHR ''.''" "path_rest True cs" by auto
    from Cons.IH [OF c(3), of "acc @ [c]"] c False show ?thesis by simp
  qed
qed

lemma match_path_sound:
  "match_path need acc s = Some (p, r) \<Longrightarrow>
     \<exists>q. p = acc @ q \<and> s = q @ ''}}'' @ r \<and> path_rest need q"
proof (induction need acc s rule: match_path.induct)
  case (1 need acc)
  then show ?case by simp
next
  case (2 need acc c cs)
  show ?case
  proof (cases "is_word c")
    case True
    with "2.IH"(1) "2.prems" obtain q
      where "p = (acc @ [c]) @ q" "cs = q @ ''}}'' @ r" "path_rest False q"
      by auto
    then show ?thesis using True by (intro exI [of _ "c # q"]) simp
  next
    case word: False
    show ?thesis
    proof (cases "c = CHR ''.''")
      case True
      with "2.IH"(2) "2.prems" word obtain q
        where "p = (acc @ [c]) @ q" "cs = q @ ''}}'' @ r" "path_rest True q" "\<not> need"
        by (auto split: if_splits)
      then show ?thesis using True word by (intro exI [of _ "c # q"]) simp
    next
      case False
      with "2.prems" word have "\<not> need" "c = CHR ''}''" "cs \<noteq> []" "hd cs = CHR ''}''" "p = acc" "r = tl cs"
        by (auto split: if_splits)
      then show ?thesis by (intro exI [of _ "[]"]) (cases cs; simp)
    qed
  qed
qed

lemma match_placeholder_iff:
  "match_placeholder s = Some (p, r) \<longleftrightarrow> dotted_path p \<and> s = ''{{'' @ p @ ''}}'' @ r"
proof
  assume m: "match_placeholder s = Some (p, r)"
  then have two: "take 2 s = ''{{''" and mp: "match_path True [] (drop 2 s) = Some (p, r)"
    by (auto simp: match_placeholder_def split: if_splits)
  from match_path_sound [OF mp] have "drop 2 s = p @ ''}}'' @ r" "path_rest True p"
    by auto
  moreover have "s = take 2 s @ drop 2 s" by simp
  ultimately show "dotted_path p \<and> s = ''{{'' @ p @ ''}}'' @ r"
    using two by (simp add: dotted_path_rest)
next
  assume "dotted_path p \<and> s = ''{{'' @ p @ ''}}'' @ r"
  then show "match_placeholder s = Some (p, r)"
    using match_path_complete [of True p "[]" r]
    by (simp add: match_placeholder_def dotted_path_rest)
qed

text \<open>
  Claim C6 says that a placeholder is replaced by the string form of the value found,
  and by the empty string only when the path is unresolved. A path that resolves to
  \<open>null\<close> is replaced by the empty string too, not by \<open>"null"\<close>.
\<close>

theorem interpolate_null_counterexample:
  "getNestedValue (JObj [(''a'', JNull)]) ''a'' = JNull
   \<and> to_string JNull = Inr ''null''
   \<and> interpolate ''{{a}}'' (JObj [(''a'', JNull)]) = Inr []"
  by code_simp

text \<open>
  Claim C6, amended: \<open>interpolate\<close> reads the template from left to right. Where the
  text starts with \<open>{{p}}\<close> for a dotted path \<open>p\<close>, the result is the replacement
  of \<open>p\<close> followed by the interpolation of the text after the placeholder, so the
  replacement itself is not searched for placeholders; elsewhere the first character is
  kept. The replacement of \<open>p\<close> is the empty string when the lookup of \<open>p\<close> gives
  \<open>undefined\<close> or \<open>null\<close>, and the string form of the value found otherwise. In
  particular \<open>interpolate("{{a.b}}", {a: {b: "x"}}) = "x"\<close> and
  \<open>interpolate("{{missing}}", {}) = ""\<close>.
\<close>

theorem interpolate_scan:
  "interpolate [] ctx = Inr []
   \<and> (\<forall>p rest. dotted_path p \<longrightarrow>
         interpolate (''{{'' @ p @ ''}}'' @ rest) ctx =
           and_then (replacement ctx p) (\<lambda>r.
           and_then (interpolate rest ctx) (\<lambda>t. Inr (r @ t))))
   \<and> (\<forall>c cs. (\<forall>p rest. dotted_path p \<longrightarrow> c # cs \<noteq> ''{{'' @ p @ ''}}'' @ rest) \<longrightarrow>
         interpolate (c # cs) ctx = and_then (interpolate cs ctx) (\<lambda>t. Inr (c # t)))
   \<and> (\<forall>p. replacement ctx p =
         (if getNestedValue ctx p = JUndefined \<or> getNestedValue ctx p = JNull then Inr []
          else to_string (getNestedValue ctx p)))
   \<and> interpolate ''{{a.b}}'' (JObj [(''a'', JObj [(''b'', JStr ''x'')])]) = Inr ''x''
   \<and> interpolate ''{{missing}}'' (JObj []) = Inr []"
proof (intro conjI allI impI)
  show "interpolate [] ctx = Inr []" by simp
next
  fix p rest
  assume "dotted_path p"
  then have "match_placeholder (''{{'' @ p @ ''}}'' @ rest) = Some (p, rest)"
    by (simp add: match_placeholder_iff)
  then show "interpolate (''{{'' @ p @ ''}}'' @ rest) ctx =
           and_then (replacement ctx p) (\<lambda>r.
           and_then (interpolate rest ctx) (\<lambda>t. Inr (r @ t)))"
    by simp
next
  fix c cs
  assume none: "\<forall>p rest. dotted_path p \<longrightarrow> c # cs \<noteq> ''{{'' @ p @ ''}}'' @ rest"
  have "match_placeholder (c # cs) = None"
  proof (cases "match_placeholder (c # cs)")
    case None
    then show ?thesis .
  next
    case (Some pr)
    then obtain p r where "match_placeholder (c # cs) = Some (p, r)" by (cases pr) auto
    with none show ?thesis by (auto simp: match_placeholder_iff)
  qed
  then show "interpolate (c # cs) ctx = and_then (interpolate cs ctx) (\<lambda>t. Inr (c # t))"
    by simp
next
  fix p
  show "replacement ctx p =
         (if getNestedValue ctx p = JUndefined \<or> getNestedValue ctx p = JNull then Inr []
          else to_string (getNestedValue ctx p))"
    by (simp add: replacement_def Let_def)
next
  show "interpolate ''{{a.b}}'' (JObj [(''a'', JObj [(''b'', JStr ''x'')])]) = Inr ''x''"
    by code_simp
  show "interpolate ''{{missing}}'' (JObj []) = Inr []"
    by code_simp
qed

theorem interpolate_scan_witness:
  "dotted_path ''a''
   \<and> interpolate ''{{a}} and {{b}}'' (JObj [(''a'', JStr ''{{b}}''), (''b'', JNum (Fin 5))])
       = Inr ''{{b}} and 5''"
proof -
  let ?ctx = "JObj [(''a'', JStr ''{{b}}''), (''b'', JNum (Fin 5))]"
  have path: "dotted_path ''a''" by code_simp
  have value_a: "replacement ?ctx ''a'' = Inr ''{{b}}''" by code_simp
  have rest: "interpolate '' and {{b}}'' ?ctx = Inr '' and 5''" by code_simp
  from interpolate_scan [of ?ctx] path
  have "interpolate (''{{'' @ ''a'' @ ''}}'' @ '' and {{b}}'') ?ctx =
           and_then (replacement ?ctx ''a'') (\<lambda>r.
           and_then (interpolate '' and {{b}}'' ?ctx) (\<lambda>t. Inr (r @ t)))"
    by blast
  then have "interpolate ''{{a}} and {{b}}'' ?ctx = Inr ''{{b}} and 5''"
    by (simp del: interpolate.simps add: value_a rest and_then_def)
  with path show ?thesis by blast
qed

subsection \<open>Matching automations\<close>

lemma store_select:
  "store_request env caller (Select t fs ord) w = (Inr data, w') \<Longrightarrow>
     data = JArr (ordered ord (filter (matches fs) (table_rows w t)))"
  by (auto simp: store_request_def Let_def split: option.splits)

lemma loadMatchingAutomations_rows:
  assumes "loadMatchingAutomations env org tt tv w = (Inr autos, w')"
  shows "\<exists>fs. automation_filters org tt tv = Inr fs
           \<and> autos = filter (matches fs) (table_rows w ''automations'')"
  using assms
  by (auto simp: loadMatchingAutomations_def io_bind_def io_of_def io_return_def or_fail_def
        io_catch_def io_throw_def rows_of_def ordered_def
      split: sum.splits prod.splits dest!: store_select)

text \<open>
  Claim C2 says that a published automation with a \<open>triggerValue\<close> is matched only
  to events that carry an equal \<open>triggerValue\<close>. The router filters on the trigger
  value only when the event has one: an event without it is matched to the automation
  on the stage \<open>won\<close>.
\<close>

theorem trigger_value_counterexample:
  "trigger_value_of [(''stage'', JStr ''lost'')] = JUndefined
   \<and> js_get won_automation ''triggerValue'' = JStr ''won''
   \<and> fst (loadMatchingAutomations example_env ''7'' (trigger_type_of ''pipeline.stage_changed'')
            (trigger_value_of [(''stage'', JStr ''lost'')]) pipeline_world)
       = Inr [won_automation]"
  by code_simp

text \<open>
  Claim C2, amended: the automations the router matches to an event are the rows of the
  table with the organisation of the event, the status \<open>published\<close>, the trigger type
  of the event and, when the payload has a truthy \<open>triggerValue\<close>, that same
  \<open>triggerValue\<close>. An event with a \<open>triggerValue\<close> is matched only to
  automations with an equal one; an event without is matched to the automations of its
  trigger type whatever their \<open>triggerValue\<close>.
\<close>

theorem loadMatchingAutomations_matches:
  assumes "loadMatchingAutomations env (orgId p) (trigger_type_of (eventType p))
             (trigger_value_of (payload p)) w = (Inr autos, w')"
    and "to_string (trigger_type_of (eventType p)) = Inr tt"
  shows "a \<in> set autos \<longleftrightarrow>
           a \<in> set (table_rows w ''automations'')
           \<and> column_text (js_get a ''org_id'') = Some (orgId p)
           \<and> column_text (js_get a ''status'') = Some ''published''
           \<and> column_text (js_get a ''triggerType'') = Some tt
           \<and> (truthy (js_get (JObj (payload p)) ''triggerValue'') \<longrightarrow>
                (\<exists>tv. to_string (js_get (JObj (payload p)) ''triggerValue'') = Inr tv
                      \<and> column_text (js_get a ''triggerValue'') = Some tv))"
proof -
  from loadMatchingAutomations_rows [OF assms(1)] obtain fs
    where fs: "automation_filters (orgId p) (trigger_type_of (eventType p))
                 (trigger_value_of (payload p)) = Inr fs"
      and autos: "autos = filter (matches fs) (table_rows w ''automations'')"
    by blast
  show ?thesis
  proof (cases "truthy (js_get (JObj (payload p)) ''triggerValue'')")
    case True
    then have tv: "trigger_value_of (payload p) = js_get (JObj (payload p)) ''triggerValue''"
      by (simp add: trigger_value_of_def js_or_def)
    from fs True obtain tvs where
      "to_string (js_get (JObj (payload p)) ''triggerValue'') = Inr tvs"
      "fs = [(''org_id'', orgId p), (''status'', ''published''), (''triggerType'', tt),
             (''triggerValue'', tvs)]"
      by (auto simp: automation_filters_def and_then_def assms(2) tv Let_def split: sum.splits)
    then show ?thesis using True by (auto simp: autos matches_def)
  next
    case False
    then have "trigger_value_of (payload p) = JUndefined"
      by (simp add: trigger_value_of_def js_or_def)
    with fs have "fs = [(''org_id'', orgId p), (''status'', ''published''), (''triggerType'', tt)]"
      by (auto simp: automation_filters_def and_then_def assms(2) Let_def)
    then show ?thesis using False by (auto simp: autos matches_def)
  qed
qed

theorem loadMatchingAutomations_matches_witness:
  "fst (loadMatchingAutomations example_env ''7'' (trigger_type_of ''pipeline.stage_changed'')
          (trigger_value_of [(''triggerValue'', JStr ''won'')]) pipeline_world)
     = Inr [won_automation]
   \<and> fst (loadMatchingAutomations example_env ''7'' (trigger_type_of ''pipeline.stage_changed'')
          (trigger_value_of [(''triggerValue'', JStr ''lost'')]) pipeline_world)
     = Inr []
   \<and> column_text (js_get won_automation ''triggerValue'') = Some ''won''"
proof -
  let ?won = "stage_event [(''triggerValue'', JStr ''won'')]"
  let ?load = "\<lambda>p. loadMatchingAutomations example_env (orgId p) (trigger_type_of (eventType p))
                 (trigger_value_of (payload p)) pipeline_world"
  have run: "?load ?won = (Inr [won_automation], snd (?load ?won))"
    by code_simp
  have tt: "to_string (trigger_type_of (eventType ?won)) = Inr ''pipeline_stage_change''"
    by code_simp
  have tv: "to_string (js_get (JObj (payload ?won)) ''triggerValue'') = Inr ''won''"
    "truthy (js_get (JObj (payload ?won)) ''triggerValue'')"
    by code_simp+
  from loadMatchingAutomations_matches [OF run tt, of won_automation] tv
  have col: "column_text (js_get won_automation ''triggerValue'') = Some ''won''"
    by simp
  have a: "fst (loadMatchingAutomations example_env ''7'' (trigger_type_of ''pipeline.stage_changed'')
          (trigger_value_of [(''triggerValue'', JStr ''won'')]) pipeline_world)
     = Inr [won_automation]"
    by code_simp
  have b: "fst (loadMatchingAutomations example_env ''7'' (trigger_type_of ''pipeline.stage_changed'')
          (trigger_value_of [(''triggerValue'', JStr ''lost'')]) pipeline_world)
     = Inr []"
    by code_simp
  from a b col show ?thesis by blast
qed

subsection \<open>What a computation writes to the journal\<close>












lemma journal_put_table [simp]: "journal (put_table t rows w) = journal w"
  by (simp add: put_table_def)




lemma emits_mono: "emits P m \<Longrightarrow> (\<And>e. P e \<Longrightarrow> Q e) \<Longrightarrow> emits Q m"
  unfolding emits_def by (meson list_all_iff)

















subsection \<open>One step of a run\<close>

lemma clock_eq:
  "clock env w = (Inr (now env (clock_reads w)), w\<lparr>clock_reads := clock_reads w + 1\<rparr>)"
  by (simp add: clock_def read_clock_def)

lemma journal_clock [simp]: "journal (snd (clock env w)) = journal w"
  by (simp add: clock_eq)






lemma run_steps_stopped [simp]:
  "\<not> snd st \<Longrightarrow> run_steps env rid ctx slug steps st w = (Inr st, w)"
  by (cases steps) (simp_all add: io_return_def)







subsection \<open>A condition that stops the run\<close>



subsection \<open>A step that throws\<close>



lemma log_entry_not_failed [simp]: "\<not> is_failed_update (log_entry row)"
  by (simp add: log_entry_def)

lemma completed_update_not_failed [simp]:
  "\<not> is_failed_update (update_entry i (completed_update t))"
  by (simp add: update_entry_def completed_update_def)








subsection \<open>Marking the event processed\<close>








end
